theory Spec2Isabelle
  imports Complex_Main "HOL-Library.Multiset"
begin

section \<open>JavaScript values\<close>

text \<open>
  Scores and distances are JavaScript numbers: a finite value (a \<open>real\<close> here, rounding
  and the sign of zero left out), one of the two infinities, or \<open>NaN\<close>. Array indices,
  result widths, years and clock readings are integer-valued numbers and are modelled as
  \<open>int\<close>, so that a negative or too large index is an input of the model. A field that
  may be \<open>undefined\<close> is an \<open>option\<close>.
\<close>

datatype jsnum = Num real | PosInfinity | NegInfinity | NaN

text \<open>\<open>a + b\<close>\<close>

fun js_plus :: "jsnum \<Rightarrow> jsnum \<Rightarrow> jsnum" where
  "js_plus NaN b = NaN"
| "js_plus a NaN = NaN"
| "js_plus (Num x) (Num y) = Num (x + y)"
| "js_plus PosInfinity NegInfinity = NaN"
| "js_plus NegInfinity PosInfinity = NaN"
| "js_plus PosInfinity b = PosInfinity"
| "js_plus NegInfinity b = NegInfinity"
| "js_plus a b = b"

text \<open>\<open>a - b\<close>\<close>

fun js_minus :: "jsnum \<Rightarrow> jsnum \<Rightarrow> jsnum" where
  "js_minus NaN b = NaN"
| "js_minus a NaN = NaN"
| "js_minus (Num x) (Num y) = Num (x - y)"
| "js_minus (Num x) PosInfinity = NegInfinity"
| "js_minus (Num x) NegInfinity = PosInfinity"
| "js_minus PosInfinity PosInfinity = NaN"
| "js_minus PosInfinity b = PosInfinity"
| "js_minus NegInfinity NegInfinity = NaN"
| "js_minus NegInfinity b = NegInfinity"

text \<open>\<open>a <= b\<close>: false as soon as one side is \<open>NaN\<close>.\<close>

fun js_le :: "jsnum \<Rightarrow> jsnum \<Rightarrow> bool" where
  "js_le NaN b = False"
| "js_le a NaN = False"
| "js_le NegInfinity b = True"
| "js_le a PosInfinity = True"
| "js_le (Num x) (Num y) = (x \<le> y)"
| "js_le a b = False"

text \<open>\<open>Math.min(a, b)\<close> and \<open>Math.max(a, b)\<close>: \<open>NaN\<close> as soon as one argument is \<open>NaN\<close>.\<close>

definition js_min :: "jsnum \<Rightarrow> jsnum \<Rightarrow> jsnum" where
  "js_min a b = (if a = NaN \<or> b = NaN then NaN else if js_le a b then a else b)"

definition js_max :: "jsnum \<Rightarrow> jsnum \<Rightarrow> jsnum" where
  "js_max a b = (if a = NaN \<or> b = NaN then NaN else if js_le a b then b else a)"

text \<open>\<open>s / n\<close> for a count \<open>n\<close>, such as the length of an array.\<close>

definition js_div_length :: "jsnum \<Rightarrow> nat \<Rightarrow> jsnum" where
  "js_div_length s n =
     (case s of
        Num x \<Rightarrow>
          (if n = 0 then (if x = 0 then NaN else if 0 < x then PosInfinity else NegInfinity)
           else Num (x / real n))
      | PosInfinity \<Rightarrow> PosInfinity
      | NegInfinity \<Rightarrow> NegInfinity
      | NaN \<Rightarrow> NaN)"

text \<open>A thrown value: an \<open>Error\<close> object with its message, or anything else.\<close>

datatype thrown = Error string | NonError

text \<open>\<open>error instanceof Error ? error.message : 'Unknown error'\<close>\<close>

definition errorMessage :: "thrown \<Rightarrow> string" where
  "errorMessage e = (case e of Error m \<Rightarrow> m | NonError \<Rightarrow> ''Unknown error'')"

text \<open>\<open>a || b\<close> on an optional number: \<open>undefined\<close> and \<open>0\<close> are falsy.\<close>

definition js_or_int :: "int option \<Rightarrow> int \<Rightarrow> int" where
  "js_or_int a b = (case a of None \<Rightarrow> b | Some n \<Rightarrow> if n = 0 then b else n)"

text \<open>\<open>a || b\<close> on an optional string: \<open>undefined\<close> and the empty string are falsy.\<close>

definition js_or_string :: "string option \<Rightarrow> string \<Rightarrow> string" where
  "js_or_string a b = (case a of None \<Rightarrow> b | Some s \<Rightarrow> if s = [] then b else s)"

text \<open>\<open>a || b\<close> on two numbers: \<open>0\<close> and \<open>NaN\<close> are falsy.\<close>

definition js_or_num :: "jsnum \<Rightarrow> jsnum \<Rightarrow> jsnum" where
  "js_or_num a b = (if a = Num 0 \<or> a = NaN then b else a)"

text \<open>\<open>xs[i]\<close>: \<open>undefined\<close> (here \<open>None\<close>) outside \<open>0 .. length - 1\<close>.\<close>

definition js_index :: "'a list \<Rightarrow> int \<Rightarrow> 'a option" where
  "js_index xs i = (if 0 \<le> i \<and> i < int (length xs) then Some (xs ! nat i) else None)"

text \<open>
  \<open>xs.slice(0, e)\<close>: a negative end counts from the end of the array, and the result is
  clipped to the array.
\<close>

definition js_slice_to :: "'a list \<Rightarrow> int \<Rightarrow> 'a list" where
  "js_slice_to xs e =
     (let len = int (length xs);
          final = (if e < 0 then max (len + e) 0 else min e len)
      in take (nat final) xs)"

text \<open>
  \<open>xs.sort(cmp)\<close>. The language fixes the sort to be stable, and for a comparator that
  is a consistent order the result is then determined; it is computed here by stable
  insertion: an element goes in front of the first element it does not compare
  greater than. A comparator result of \<open>NaN\<close> counts as zero.
\<close>

definition js_not_positive :: "jsnum \<Rightarrow> bool" where
  "js_not_positive v =
     (case v of Num x \<Rightarrow> x \<le> 0 | PosInfinity \<Rightarrow> False | NegInfinity \<Rightarrow> True | NaN \<Rightarrow> True)"

fun js_sort_insert :: "('a \<Rightarrow> 'a \<Rightarrow> jsnum) \<Rightarrow> 'a \<Rightarrow> 'a list \<Rightarrow> 'a list" where
  "js_sort_insert cmp a [] = [a]"
| "js_sort_insert cmp a (b # bs) =
     (if js_not_positive (cmp a b) then a # b # bs else b # js_sort_insert cmp a bs)"

definition js_sort :: "('a \<Rightarrow> 'a \<Rightarrow> jsnum) \<Rightarrow> 'a list \<Rightarrow> 'a list" where
  "js_sort cmp xs = foldr (js_sort_insert cmp) xs []"

text \<open>\<open>xs.join(sep)\<close> on an array of strings.\<close>

fun js_join :: "string \<Rightarrow> string list \<Rightarrow> string" where
  "js_join sep [] = []"
| "js_join sep [x] = x"
| "js_join sep (x # y # ys) = x @ sep @ js_join sep (y # ys)"

text \<open>\<open>xs.map((x, index) => f(x, index))\<close>, the index counted from \<open>i\<close>.\<close>

fun map_index_from :: "nat \<Rightarrow> ('a \<Rightarrow> nat \<Rightarrow> 'b) \<Rightarrow> 'a list \<Rightarrow> 'b list" where
  "map_index_from i f [] = []"
| "map_index_from i f (x # xs) = f x i # map_index_from (Suc i) f xs"

definition map_index :: "('a \<Rightarrow> nat \<Rightarrow> 'b) \<Rightarrow> 'a list \<Rightarrow> 'b list" where
  "map_index f xs = map_index_from 0 f xs"

text \<open>Decimal rendering of an integer inside a template literal.\<close>

definition digitChar :: "nat \<Rightarrow> char" where
  "digitChar d = ''0123456789'' ! d"

fun natToString :: "nat \<Rightarrow> string" where
  "natToString n =
     (if 10 \<le> n then natToString (n div 10) @ [digitChar (n mod 10)] else [digitChar n])"

definition numberToString :: "int \<Rightarrow> string" where
  "numberToString i =
     (if 0 \<le> i then natToString (nat i) else CHR ''-'' # natToString (nat (- i)))"

definition newline :: string where
  "newline = [CHR 0x0A]"

section \<open>Data model\<close>

record paper =
  title :: string
  authors :: string
  year :: int
  pages :: int
  link :: string
  code :: string

record chunkMetadata =
  md_paperId :: string
  md_title :: string
  md_authors :: string
  md_year :: int
  md_pages :: int
  md_link :: string
  md_code :: string
  md_chunkIndex :: int
  md_totalChunks :: int

record document =
  pageContent :: string
  doc_metadata :: chunkMetadata

record searchResult =
  paper :: paper
  score :: jsnum
  chunkContent :: string

record rerankResult = searchResult +
  rerankScore :: jsnum
  originalScore :: jsnum

record rerankOptions =
  ro_topK :: "int option"
  ro_model :: "string option"

text \<open>
  One entry of the scoring service's response. Its relevance score is a finite number; a
  response with anything else in that place is malformed.
\<close>

record rerankResponseItem =
  index :: int
  relevanceScore :: real

record sourceReference =
  sr_title :: string
  sr_authors :: string
  sr_year :: int
  sr_link :: string
  sr_pages :: int
  sr_relevanceScore :: jsnum
  sr_excerpt :: string

record queryMetadata =
  retrievalTimeMs :: int
  rerankTimeMs :: "int option"
  generationTimeMs :: int
  totalTimeMs :: int
  candidateCount :: nat
  finalCount :: nat
  modelUsed :: string

record queryResponse =
  qr_answer :: string
  qr_sources :: "sourceReference list"
  qr_metadata :: queryMetadata

section \<open>Configuration, collaborators and the world\<close>

text \<open>
  The configuration module is not part of the sources at hand; the values the stages read
  from it are parameters: the two widths, the chat model's name and whether a credential
  for the scoring service is present (\<open>isCohereEnabled()\<close>).
\<close>

record config =
  VECTOR_SEARCH_K :: int
  RERANK_TOP_K :: int
  CHAT_MODEL :: string
  cohereEnabled :: bool

text \<open>
  The external services, each as the outcome of one call: the vector store's
  \<open>similaritySearchWithScore(query, k, filter)\<close> (opening the store included), the
  scoring service's \<open>rerank({model, query, documents, topN})\<close>, and the chat model's
  \<open>invoke([system, user])\<close>. \<open>clock n\<close> is what the \<open>n\<close>-th reading of \<open>Date.now()\<close> returns.
\<close>

type_synonym metadataFilter = "(string \<times> string) list"

record chatResponse =
  cr_content :: string
  cr_estimatedTokenUsage :: "nat option"

record services =
  clock :: "nat \<Rightarrow> int"
  similaritySearchWithScore ::
    "string \<Rightarrow> int \<Rightarrow> metadataFilter option \<Rightarrow> thrown + (document \<times> jsnum) list"
  cohereRerank :: "string \<Rightarrow> string \<Rightarrow> string list \<Rightarrow> int \<Rightarrow> thrown + rerankResponseItem list"
  chatInvoke :: "string \<Rightarrow> string \<Rightarrow> thrown + chatResponse"
  modelName :: string

text \<open>
  What a call-counting double of each collaborator would see: the entries of the three
  stage operations and the three external calls, in the order they happen. Log lines are
  not modelled.
\<close>

datatype event =
    SearchCalled string
  | StoreQueried string int
  | RerankCalled string
  | ScoringCalled string int
  | GenerateCalled string
  | ChatInvoked string

record world =
  ticks :: nat
  trace :: "event list"

definition Date_now :: "services \<Rightarrow> world \<Rightarrow> int \<times> world" where
  "Date_now svc w = (clock svc (ticks w), w\<lparr>ticks := Suc (ticks w)\<rparr>)"

definition emit :: "event \<Rightarrow> world \<Rightarrow> world" where
  "emit e w = w\<lparr>trace := trace w @ [e]\<rparr>"

section \<open>Stage 2: CohereReranker\<close>

text \<open>\<open>const topK = options.topK || env.RERANK_TOP_K\<close>\<close>

definition effectiveTopK :: "config \<Rightarrow> rerankOptions \<Rightarrow> int" where
  "effectiveTopK cfg options = js_or_int (ro_topK options) (RERANK_TOP_K cfg)"

definition fallbackToOriginalScores :: "searchResult list \<Rightarrow> int \<Rightarrow> rerankResult list" where
  "fallbackToOriginalScores candidates topK =
     map (\<lambda>candidate.
            \<lparr>paper = paper candidate, score = score candidate,
             chunkContent = chunkContent candidate,
             rerankScore = score candidate, originalScore = score candidate\<rparr>)
         (js_slice_to candidates topK)"

text \<open>
  The callback of \<open>response.results.map\<close>: the candidate the result points at, with the
  new score, or the throw when there is none.
\<close>

definition mapRerankResult :: "searchResult list \<Rightarrow> rerankResponseItem \<Rightarrow> thrown + rerankResult" where
  "mapRerankResult candidates result =
     (case js_index candidates (index result) of
        None \<Rightarrow> Inl (Error (''Invalid rerank result index: '' @ numberToString (index result)))
      | Some originalCandidate \<Rightarrow>
          Inr \<lparr>paper = paper originalCandidate, score = Num (relevanceScore result),
               chunkContent = chunkContent originalCandidate,
               rerankScore = Num (relevanceScore result),
               originalScore = score originalCandidate\<rparr>)"

text \<open>The \<open>map\<close> itself: left to right, stopping at the first throw.\<close>

fun mapRerankResults :: "searchResult list \<Rightarrow> rerankResponseItem list \<Rightarrow> thrown + rerankResult list" where
  "mapRerankResults candidates [] = Inr []"
| "mapRerankResults candidates (result # results) =
     (case mapRerankResult candidates result of
        Inl e \<Rightarrow> Inl e
      | Inr r \<Rightarrow>
          (case mapRerankResults candidates results of
             Inl e \<Rightarrow> Inl e
           | Inr rs \<Rightarrow> Inr (r # rs)))"

text \<open>\<open>(a, b) => b.rerankScore - a.rerankScore\<close>\<close>

definition byRerankScoreDesc :: "rerankResult \<Rightarrow> rerankResult \<Rightarrow> jsnum" where
  "byRerankScoreDesc a b = js_minus (rerankScore b) (rerankScore a)"

definition rerankDocuments :: "searchResult list \<Rightarrow> string list" where
  "rerankDocuments candidates =
     map (\<lambda>candidate. title (paper candidate) @ newline @ newline @ chunkContent candidate)
         candidates"

text \<open>
  \<open>rerank\<close> never throws: everything raised inside its \<open>try\<close> block, by the scoring call
  or by the mapping, ends in the fallback.
\<close>

definition rerank ::
  "config \<Rightarrow> services \<Rightarrow> string \<Rightarrow> searchResult list \<Rightarrow> rerankOptions \<Rightarrow> world
     \<Rightarrow> rerankResult list \<times> world" where
  "rerank cfg svc query candidates options w0 =
     (let topK = effectiveTopK cfg options;
          w1 = emit (RerankCalled query) w0
      in if \<not> cohereEnabled cfg then (fallbackToOriginalScores candidates topK, w1)
         else if candidates = [] then ([], w1)
         else
           (let (startTime, w2) = Date_now svc w1;
                documents = rerankDocuments candidates;
                w3 = emit (ScoringCalled query topK) w2
            in case cohereRerank svc (js_or_string (ro_model options) ''rerank-english-v3.0'')
                      query documents topK of
                 Inl e \<Rightarrow> (fallbackToOriginalScores candidates topK, w3)
               | Inr results \<Rightarrow>
                   (case mapRerankResults candidates results of
                      Inl e \<Rightarrow> (fallbackToOriginalScores candidates topK, w3)
                    | Inr rerankedResults \<Rightarrow>
                        (let sorted = js_sort byRerankScoreDesc rerankedResults;
                             (endTime, w4) = Date_now svc w3
                         in (sorted, w4)))))"

section \<open>Stage 1: VectorSearchService\<close>

record vectorSearchOptions =
  vs_k :: "int option"
  vs_filter :: "metadataFilter option"

definition normalizeScore :: "jsnum \<Rightarrow> jsnum" where
  "normalizeScore distance =
     (let similarity = js_minus (Num 1) distance in js_max (Num 0) (js_min (Num 1) similarity))"

text \<open>
  The clamp of the specification, in its own words: a value below the lower bound becomes
  the lower bound, a value above the upper bound becomes the upper bound.
\<close>

definition clamp :: "real \<Rightarrow> real \<Rightarrow> real \<Rightarrow> real" where
  "clamp x lo hi = (if x < lo then lo else if hi < x then hi else x)"

text \<open>The callback of \<open>results.map(([doc, score]) => ...)\<close>.\<close>

definition toSearchResult :: "document \<times> jsnum \<Rightarrow> searchResult" where
  "toSearchResult p =
     (case p of (doc, distance) \<Rightarrow>
        (let md = doc_metadata doc
         in \<lparr>paper = \<lparr>title = md_title md, authors = md_authors md, year = md_year md,
                        pages = md_pages md, link = md_link md, code = md_code md\<rparr>,
             score = normalizeScore distance,
             chunkContent = pageContent doc\<rparr>))"

definition search ::
  "config \<Rightarrow> services \<Rightarrow> string \<Rightarrow> vectorSearchOptions \<Rightarrow> world
     \<Rightarrow> (thrown + searchResult list) \<times> world" where
  "search cfg svc query options w0 =
     (let (startTime, w1) = Date_now svc (emit (SearchCalled query) w0);
          k = js_or_int (vs_k options) (VECTOR_SEARCH_K cfg);
          w2 = emit (StoreQueried query k) w1
      in case similaritySearchWithScore svc query k (vs_filter options) of
           Inl e \<Rightarrow> (Inl (Error (''Vector search failed: '' @ errorMessage e)), w2)
         | Inr results \<Rightarrow>
             (let searchResults = map toSearchResult results;
                  (endTime, w3) = Date_now svc w2
              in (Inr searchResults, w3)))"

section \<open>Stage 3: ResponseGenerator\<close>

record generatedResponse =
  gr_answer :: string
  gr_sources :: "sourceReference list"
  gr_modelUsed :: string
  gr_tokensUsed :: "nat option"

definition noPapersAnswer :: string where
  "noPapersAnswer = ''I could not find any relevant papers to answer your question. Please try rephrasing or asking about a different topic.''"

definition SYSTEM_PROMPT :: string where
  "SYSTEM_PROMPT = js_join newline
     [''You are an expert research assistant specializing in machine learning and artificial intelligence research. Your task is to answer questions about academic papers from the Journal of Machine Learning Research (JMLR).'',
      [],
      ''Guidelines:'',
      ''1. Base your answer ONLY on the provided paper contexts'',
      ''2. Cite sources using [1], [2] format in your answer'',
      ''3. Be concise but informative (2-3 paragraphs)'',
      ''4. If multiple papers discuss the topic, synthesize their contributions'',
      ''5. If the provided papers don't contain relevant information, say so clearly'',
      ''6. Use technical terminology appropriately'',
      ''7. Highlight key contributions and findings'',
      [],
      ''Answer format:'',
      ''- Start with a direct answer to the question'',
      ''- Support claims with citations [1], [2]'',
      ''- End with a brief summary if multiple papers are cited'']"

text \<open>\<open>ANSWER_TEMPLATE\<close> with \<open>{query}\<close> and \<open>{context}\<close> filled in.\<close>

definition formatAnswerTemplate :: "string \<Rightarrow> string \<Rightarrow> string" where
  "formatAnswerTemplate query context = js_join newline
     [''Question: '' @ query,
      [],
      ''Relevant Papers:'',
      [],
      context,
      [],
      ''Please provide a comprehensive answer to the question, citing the papers using [1], [2] format. Focus on the key findings and contributions from these papers.'']"

text \<open>The callback of \<open>sources.map((source, index) => ...)\<close> in \<open>buildContext\<close>.\<close>

definition contextEntry :: "rerankResult \<Rightarrow> nat \<Rightarrow> string" where
  "contextEntry source idx =
     (let citation = ''['' @ natToString (idx + 1) @ '']''
      in js_join newline
           [citation @ '' Title: '' @ title (paper source),
            ''    Authors: '' @ authors (paper source),
            ''    Year: '' @ numberToString (year (paper source)),
            ''    Relevant content: '' @ take 500 (chunkContent source) @ ''...'',
            []])"

definition buildContext :: "rerankResult list \<Rightarrow> string" where
  "buildContext sources = js_join newline (map_index contextEntry sources)"

text \<open>\<open>s.lastIndexOf(c)\<close>: the last position of the character, or \<open>-1\<close>.\<close>

fun js_lastIndexOf :: "string \<Rightarrow> char \<Rightarrow> int" where
  "js_lastIndexOf [] c = - 1"
| "js_lastIndexOf (x # xs) c =
     (let r = js_lastIndexOf xs c
      in if 0 \<le> r then r + 1 else if x = c then 0 else - 1)"

definition extractExcerpt :: "string \<Rightarrow> nat \<Rightarrow> string" where
  "extractExcerpt content maxLength =
     (if length content \<le> maxLength then content
      else
        (let excerpt = take maxLength content;
             lastPeriod = js_lastIndexOf excerpt (CHR ''.'')
         in if real_of_int lastPeriod > real maxLength * 0.7
            then take (nat (lastPeriod + 1)) excerpt
            else excerpt @ ''...''))"

text \<open>The callback of \<open>sources.map\<close> that builds the user-facing references.\<close>

definition toSourceReference :: "rerankResult \<Rightarrow> sourceReference" where
  "toSourceReference source =
     \<lparr>sr_title = title (paper source),
      sr_authors = authors (paper source),
      sr_year = year (paper source),
      sr_link = link (paper source),
      sr_pages = pages (paper source),
      sr_relevanceScore = js_or_num (rerankScore source) (score source),
      sr_excerpt = extractExcerpt (chunkContent source) 200\<rparr>"

definition generate ::
  "services \<Rightarrow> string \<Rightarrow> rerankResult list \<Rightarrow> world \<Rightarrow> (thrown + generatedResponse) \<times> world" where
  "generate svc query sources w0 =
     (let (startTime, w1) = Date_now svc (emit (GenerateCalled query) w0)
      in if sources = []
         then (Inr \<lparr>gr_answer = noPapersAnswer, gr_sources = [],
                    gr_modelUsed = modelName svc, gr_tokensUsed = None\<rparr>, w1)
         else
           (let context = buildContext sources;
                formattedPrompt = formatAnswerTemplate query context;
                w2 = emit (ChatInvoked formattedPrompt) w1
            in case chatInvoke svc SYSTEM_PROMPT formattedPrompt of
                 Inl e \<Rightarrow> (Inl (Error (''Response generation failed: '' @ errorMessage e)), w2)
               | Inr response \<Rightarrow>
                   (let sourceReferences = map toSourceReference sources;
                        (endTime, w3) = Date_now svc w2
                    in (Inr \<lparr>gr_answer = cr_content response, gr_sources = sourceReferences,
                             gr_modelUsed = modelName svc,
                             gr_tokensUsed = cr_estimatedTokenUsage response\<rparr>, w3))))"

section \<open>RAGPipeline\<close>

record ragOptions =
  opt_k :: "int option"
  opt_candidatesK :: "int option"
  opt_withReranking :: "bool option"
  opt_temperature :: "real option"

text \<open>The projection the orchestrator applies itself when it skips stage 2.\<close>

definition skipReranking :: "searchResult list \<Rightarrow> int \<Rightarrow> rerankResult list" where
  "skipReranking candidates finalK =
     map (\<lambda>candidate.
            \<lparr>paper = paper candidate, score = score candidate,
             chunkContent = chunkContent candidate,
             rerankScore = score candidate, originalScore = score candidate\<rparr>)
         (js_slice_to candidates finalK)"

text \<open>
  Stage 2 of \<open>query\<close>: the final results, the metadata with \<open>rerankTimeMs\<close> set when the
  reranker ran, and the world after it.
\<close>

definition stage2 ::
  "config \<Rightarrow> services \<Rightarrow> string \<Rightarrow> searchResult list \<Rightarrow> int \<Rightarrow> bool \<Rightarrow> queryMetadata \<Rightarrow> world
     \<Rightarrow> rerankResult list \<times> queryMetadata \<times> world" where
  "stage2 cfg svc queryText candidates finalK withReranking md w0 =
     (if withReranking \<and> cohereEnabled cfg
      then
        (let (stage2Start, w1) = Date_now svc w0;
             (finalResults, w2) =
               rerank cfg svc queryText candidates \<lparr>ro_topK = Some finalK, ro_model = None\<rparr> w1;
             (stage2End, w3) = Date_now svc w2
         in (finalResults, md\<lparr>rerankTimeMs := Some (stage2End - stage2Start)\<rparr>, w3))
      else (skipReranking candidates finalK, md, w0))"

definition query ::
  "config \<Rightarrow> services \<Rightarrow> string \<Rightarrow> ragOptions \<Rightarrow> world \<Rightarrow> (thrown + queryResponse) \<times> world" where
  "query cfg svc queryText options w0 =
     (let (pipelineStartTime, w1) = Date_now svc w0;
          candidatesK = js_or_int (opt_candidatesK options) (VECTOR_SEARCH_K cfg);
          finalK = js_or_int (opt_k options) (RERANK_TOP_K cfg);
          withReranking = (opt_withReranking options \<noteq> Some False);
          md0 = \<lparr>retrievalTimeMs = 0, rerankTimeMs = None, generationTimeMs = 0,
                 totalTimeMs = 0, candidateCount = 0, finalCount = 0,
                 modelUsed = CHAT_MODEL cfg\<rparr>;
          (stage1Start, w2) = Date_now svc w1;
          (found, w3) = search cfg svc queryText \<lparr>vs_k = Some candidatesK, vs_filter = None\<rparr> w2
      in case found of
           Inl e \<Rightarrow> (Inl (Error (''RAG pipeline failed: '' @ errorMessage e)), w3)
         | Inr candidates \<Rightarrow>
             (let (stage1End, w4) = Date_now svc w3;
                  md1 = md0\<lparr>retrievalTimeMs := stage1End - stage1Start,
                            candidateCount := length candidates\<rparr>
              in if candidates = []
                 then
                   (let (exitTime, w5) = Date_now svc w4
                    in (Inr \<lparr>qr_answer = noPapersAnswer, qr_sources = [],
                             qr_metadata = md1\<lparr>totalTimeMs := exitTime - pipelineStartTime\<rparr>\<rparr>,
                        w5))
                 else
                   (let (finalResults, md2, w5) =
                          stage2 cfg svc queryText candidates finalK withReranking md1 w4;
                        md3 = md2\<lparr>finalCount := length finalResults\<rparr>;
                        (stage3Start, w6) = Date_now svc w5;
                        (generated, w7) = generate svc queryText finalResults w6
                    in case generated of
                         Inl e \<Rightarrow> (Inl (Error (''RAG pipeline failed: '' @ errorMessage e)), w7)
                       | Inr generatedResponse \<Rightarrow>
                           (let (stage3End, w8) = Date_now svc w7;
                                md4 = md3\<lparr>generationTimeMs := stage3End - stage3Start,
                                          modelUsed := gr_modelUsed generatedResponse\<rparr>;
                                (pipelineEnd, w9) = Date_now svc w8;
                                md5 = md4\<lparr>totalTimeMs := pipelineEnd - pipelineStartTime\<rparr>
                            in (Inr \<lparr>qr_answer = gr_answer generatedResponse,
                                     qr_sources = gr_sources generatedResponse,
                                     qr_metadata = md5\<rparr>, w9)))))"

subsection \<open>Comparison mode\<close>

text \<open>
  The averages of \<open>queryWithComparison\<close> divide by an array length with no test for zero.
\<close>

record improvement =
  latencyDiff :: int
  sourcesChanged :: bool
  avgScoreImprovement :: jsnum

record comparison =
  withRerankingResponse :: queryResponse
  withoutRerankingResponse :: queryResponse
  improvementMetrics :: improvement

text \<open>\<open>rs.sources.reduce((sum, s) => sum + s.relevanceScore, 0) / rs.sources.length\<close>\<close>

definition avgScore :: "queryResponse \<Rightarrow> jsnum" where
  "avgScore r =
     js_div_length (foldl (\<lambda>sum s. js_plus sum (sr_relevanceScore s)) (Num 0) (qr_sources r))
                   (length (qr_sources r))"

definition compareResponses :: "queryResponse \<Rightarrow> queryResponse \<Rightarrow> improvement" where
  "compareResponses withReranking withoutReranking =
     \<lparr>latencyDiff = totalTimeMs (qr_metadata withReranking)
                     - totalTimeMs (qr_metadata withoutReranking),
      sourcesChanged =
        (map_option sr_title (js_index (qr_sources withReranking) 0)
           \<noteq> map_option sr_title (js_index (qr_sources withoutReranking) 0)),
      avgScoreImprovement = js_minus (avgScore withReranking) (avgScore withoutReranking)\<rparr>"

text \<open>
  The two runs are started together and their external calls interleave. The stages share
  no mutable state, so an interleaving changes which clock reading each run gets and the
  order of the trace, nothing else; the model runs the first to its end, then the second.
  When a run throws, the comparison throws.
\<close>

definition queryWithComparison ::
  "config \<Rightarrow> services \<Rightarrow> string \<Rightarrow> world \<Rightarrow> (thrown + comparison) \<times> world" where
  "queryWithComparison cfg svc queryText w0 =
     (let (r1, w1) = query cfg svc queryText
                       \<lparr>opt_k = None, opt_candidatesK = None,
                        opt_withReranking = Some True, opt_temperature = None\<rparr> w0;
          (r2, w2) = query cfg svc queryText
                       \<lparr>opt_k = None, opt_candidatesK = None,
                        opt_withReranking = Some False, opt_temperature = None\<rparr> w1
      in case r1 of
           Inl e \<Rightarrow> (Inl e, w2)
         | Inr withReranking \<Rightarrow>
             (case r2 of
                Inl e \<Rightarrow> (Inl e, w2)
              | Inr withoutReranking \<Rightarrow>
                  (Inr \<lparr>withRerankingResponse = withReranking,
                        withoutRerankingResponse = withoutReranking,
                        improvementMetrics =
                          compareResponses withReranking withoutReranking\<rparr>, w2)))"

section \<open>The batch route\<close>

text \<open>
  The request body, as far as \<open>batchSchema\<close> reads it and already of the right JSON types:
  the schema's remaining checks are the ones on sizes and ranges.
\<close>

record batchBody =
  bb_queries :: "string list"
  bb_k :: "int option"
  bb_withReranking :: "bool option"

datatype routeError = APIError int string | Unhandled thrown

record batchResponse =
  br_queries :: nat
  br_results :: "queryResponse list"
  br_totalTimeMs :: int

definition batchSchemaAccepts :: "batchBody \<Rightarrow> bool" where
  "batchSchemaAccepts body =
     (list_all (\<lambda>s. 1 \<le> length s) (bb_queries body)
      \<and> length (bb_queries body) \<le> 10
      \<and> (case bb_k body of None \<Rightarrow> True | Some n \<Rightarrow> 0 < n \<and> n \<le> 20))"

text \<open>\<open>Promise.all\<close>: all results in order, or the rejection (the first in array order).\<close>

fun promiseAll :: "(thrown + 'a) list \<Rightarrow> thrown + 'a list" where
  "promiseAll [] = Inr []"
| "promiseAll (Inl e # rs) = Inl e"
| "promiseAll (Inr x # rs) = (case promiseAll rs of Inl e \<Rightarrow> Inl e | Inr xs \<Rightarrow> Inr (x # xs))"

text \<open>
  \<open>queries.map((query) => pipeline.query(query, { k, withReranking }))\<close>: every run is
  started, whatever the others do; as in comparison mode they are run one after the other.
\<close>

fun runQueries ::
  "config \<Rightarrow> services \<Rightarrow> ragOptions \<Rightarrow> string list \<Rightarrow> world
     \<Rightarrow> (thrown + queryResponse) list \<times> world" where
  "runQueries cfg svc options [] w = ([], w)"
| "runQueries cfg svc options (queryText # rest) w =
     (let (r, w1) = query cfg svc queryText options w;
          (rs, w2) = runQueries cfg svc options rest w1
      in (r # rs, w2))"

definition postQueryBatch ::
  "config \<Rightarrow> services \<Rightarrow> batchBody \<Rightarrow> world \<Rightarrow> (routeError + batchResponse) \<times> world" where
  "postQueryBatch cfg svc body w0 =
     (if \<not> batchSchemaAccepts body then (Inl (APIError 400 ''Invalid request body''), w0)
      else
        (let (outcomes, w1) =
               runQueries cfg svc
                 \<lparr>opt_k = bb_k body, opt_candidatesK = None,
                  opt_withReranking = bb_withReranking body, opt_temperature = None\<rparr>
                 (bb_queries body) w0
         in case promiseAll outcomes of
              Inl e \<Rightarrow> (Inl (Unhandled e), w1)
            | Inr results \<Rightarrow>
                (Inr \<lparr>br_queries = length (bb_queries body),
                      br_results = results,
                      br_totalTimeMs =
                        foldl (\<lambda>sum r. sum + totalTimeMs (qr_metadata r)) 0 results\<rparr>, w1)))"

section \<open>Definitions used in the statements\<close>


text \<open>\<open>0 <= v && v <= 1\<close>: the number lies in the unit interval.\<close>

definition inUnitInterval :: "jsnum \<Rightarrow> bool" where
  "inUnitInterval v = (js_le (Num 0) v \<and> js_le v (Num 1))"

section \<open>Sample inputs\<close>

text \<open>Concrete papers, candidates, configurations and services on which the results below are run.\<close>

definition samplePaper :: "string \<Rightarrow> paper" where
  "samplePaper t = \<lparr>title = t, authors = ''A. Author'', year = 2020, pages = 12,
                     link = ''http://jmlr.org/p'', code = []\<rparr>"

definition sampleCandidates :: "searchResult list" where
  "sampleCandidates =
     [\<lparr>paper = samplePaper ''Kernels'', score = Num 0.9, chunkContent = ''Kernel methods.''\<rparr>,
      \<lparr>paper = samplePaper ''Boosting'', score = Num 0.8, chunkContent = ''Boosting methods.''\<rparr>,
      \<lparr>paper = samplePaper ''Bandits'', score = Num 0.4, chunkContent = ''Bandit methods.''\<rparr>]"

definition sampleConfig :: "bool \<Rightarrow> config" where
  "sampleConfig enabled = \<lparr>VECTOR_SEARCH_K = 20, RERANK_TOP_K = 5, CHAT_MODEL = ''gpt-4o-mini'',
                           cohereEnabled = enabled\<rparr>"

definition sampleServices ::
  "(thrown + (document \<times> jsnum) list) \<Rightarrow> (thrown + rerankResponseItem list) \<Rightarrow> services" where
  "sampleServices found scored =
     \<lparr>clock = (\<lambda>n. 10 * int n),
      similaritySearchWithScore = (\<lambda>q k f. found),
      cohereRerank = (\<lambda>m q ds n. scored),
      chatInvoke = (\<lambda>s u. Inr \<lparr>cr_content = ''Kernels help [1].'', cr_estimatedTokenUsage = None\<rparr>),
      modelName = ''gpt-4o-mini''\<rparr>"

definition sampleOptions :: "int option \<Rightarrow> rerankOptions" where
  "sampleOptions n = \<lparr>ro_topK = n, ro_model = None\<rparr>"

definition emptyWorld :: world where
  "emptyWorld = \<lparr>ticks = 0, trace = []\<rparr>"

definition sampleDocument :: "string \<Rightarrow> document" where
  "sampleDocument t =
     \<lparr>pageContent = ''Text about '' @ t,
      doc_metadata = \<lparr>md_paperId = ''p1'', md_title = t, md_authors = ''A. Author'',
                      md_year = 2020, md_pages = 12, md_link = ''http://jmlr.org/p'',
                      md_code = [], md_chunkIndex = 0, md_totalChunks = 1\<rparr>\<rparr>"

definition sampleSearchOptions :: vectorSearchOptions where
  "sampleSearchOptions = \<lparr>vs_k = Some 3, vs_filter = None\<rparr>"

definition sampleRagOptions :: ragOptions where
  "sampleRagOptions = \<lparr>opt_k = None, opt_candidatesK = None, opt_withReranking = None,
                        opt_temperature = None\<rparr>"


definition sampleBatch :: "string list \<Rightarrow> batchBody" where
  "sampleBatch qs = \<lparr>bb_queries = qs, bb_k = None, bb_withReranking = None\<rparr>"

definition sampleMetadata :: queryMetadata where
  "sampleMetadata = \<lparr>retrievalTimeMs = 0, rerankTimeMs = None, generationTimeMs = 0,
                      totalTimeMs = 0, candidateCount = 3, finalCount = 0,
                      modelUsed = ''gpt-4o-mini''\<rparr>"

section \<open>Properties of the reranker\<close>



lemma mset_js_sort_insert: "mset (js_sort_insert cmp a bs) = add_mset a (mset bs)"
  by (induction bs) auto

lemma mset_js_sort: "mset (js_sort cmp xs) = mset xs"
  by (induction xs) (auto simp: js_sort_def mset_js_sort_insert)




lemma js_slice_to_nonneg: "0 \<le> e \<Longrightarrow> js_slice_to xs e = take (min (nat e) (length xs)) xs"
  by (auto simp: js_slice_to_def Let_def min_def)

lemma rerank_disabled:
  "\<not> cohereEnabled cfg \<Longrightarrow>
   fst (rerank cfg svc q candidates options w) =
     fallbackToOriginalScores candidates (effectiveTopK cfg options)"
  by (simp add: rerank_def Let_def)

lemma rerank_call_failed:
  "cohereRerank svc (js_or_string (ro_model options) ''rerank-english-v3.0'') q
      (rerankDocuments candidates) (effectiveTopK cfg options) = Inl e \<Longrightarrow>
   fst (rerank cfg svc q candidates options w) =
     fallbackToOriginalScores candidates (effectiveTopK cfg options)"
  by (simp add: rerank_def Let_def fallbackToOriginalScores_def js_slice_to_def
           split: prod.splits)






text \<open>
  Claim C2, as amended. Let \<open>topK\<close> be the effective width (\<open>options.topK\<close> when given and
  not zero, else the configured default) and let it be non-negative. When the reranker is
  disabled or the scoring call fails, \<open>rerank\<close> returns \<open>min topK (length candidates)\<close> items,
  the \<open>i\<close>-th being the \<open>i\<close>-th candidate with \<open>rerankScore\<close> and \<open>originalScore\<close> both set to
  the candidate's score.
\<close>

theorem rerank_fallback_projection:
  assumes "0 \<le> effectiveTopK cfg options"
    and "\<not> cohereEnabled cfg \<or>
         (\<exists>e. cohereRerank svc (js_or_string (ro_model options) ''rerank-english-v3.0'') q
                 (rerankDocuments candidates) (effectiveTopK cfg options) = Inl e)"
  shows "let out = fst (rerank cfg svc q candidates options w);
             n = min (nat (effectiveTopK cfg options)) (length candidates)
         in length out = n \<and>
            (\<forall>i<n. paper (out ! i) = paper (candidates ! i) \<and>
                   chunkContent (out ! i) = chunkContent (candidates ! i) \<and>
                   score (out ! i) = score (candidates ! i) \<and>
                   rerankScore (out ! i) = score (candidates ! i) \<and>
                   originalScore (out ! i) = score (candidates ! i))"
proof -
  have "fst (rerank cfg svc q candidates options w) =
          fallbackToOriginalScores candidates (effectiveTopK cfg options)"
    using assms(2) rerank_disabled rerank_call_failed by blast
  then show ?thesis
    using assms(1)
    by (simp add: fallbackToOriginalScores_def js_slice_to_nonneg Let_def)
qed

theorem rerank_fallback_projection_witness:
  "let out = fst (rerank (sampleConfig False) (sampleServices (Inr []) (Inl NonError))
                   ''kernels'' sampleCandidates (sampleOptions (Some 2)) emptyWorld);
       n = min (nat (effectiveTopK (sampleConfig False) (sampleOptions (Some 2))))
               (length sampleCandidates)
   in length out = n \<and>
      (\<forall>i<n. paper (out ! i) = paper (sampleCandidates ! i) \<and>
             chunkContent (out ! i) = chunkContent (sampleCandidates ! i) \<and>
             score (out ! i) = score (sampleCandidates ! i) \<and>
             rerankScore (out ! i) = score (sampleCandidates ! i) \<and>
             originalScore (out ! i) = score (sampleCandidates ! i))"
proof -
  have h1: "0 \<le> effectiveTopK (sampleConfig False) (sampleOptions (Some 2))"
    by (simp add: effectiveTopK_def sampleOptions_def js_or_int_def)
  have h2: "\<not> cohereEnabled (sampleConfig False) \<or>
            (\<exists>e. cohereRerank (sampleServices (Inr []) (Inl NonError))
                    (js_or_string (ro_model (sampleOptions (Some 2))) ''rerank-english-v3.0'')
                    ''kernels'' (rerankDocuments sampleCandidates)
                    (effectiveTopK (sampleConfig False) (sampleOptions (Some 2))) = Inl e)"
    by (simp add: sampleConfig_def)
  show ?thesis
    by (rule rerank_fallback_projection [OF h1 h2])
qed

text \<open>
  Claim C2 as stated fails for a negative width: \<open>slice(0, -1)\<close> drops the last candidate, so
  three candidates give two items, which is not \<open>min (-1) 3\<close>.
\<close>

theorem rerank_fallback_negative_width:
  "\<not> cohereEnabled (sampleConfig False) \<and>
   effectiveTopK (sampleConfig False) (sampleOptions (Some (- 1))) = - 1 \<and>
   int (length (fst (rerank (sampleConfig False) (sampleServices (Inr []) (Inl NonError))
                      ''kernels'' sampleCandidates (sampleOptions (Some (- 1))) emptyWorld)))
     \<noteq> min (effectiveTopK (sampleConfig False) (sampleOptions (Some (- 1))))
           (int (length sampleCandidates)) \<and>
   length (fst (rerank (sampleConfig False) (sampleServices (Inr []) (Inl NonError))
                      ''kernels'' sampleCandidates (sampleOptions (Some (- 1))) emptyWorld)) = 2"
  by (simp add: rerank_def sampleConfig_def sampleOptions_def effectiveTopK_def js_or_int_def
        fallbackToOriginalScores_def js_slice_to_def sampleCandidates_def Let_def)



section \<open>Properties of the vector search\<close>

lemma normalizeScore_Num: "normalizeScore (Num d) = Num (clamp (1 - d) 0 1)"
  by (simp add: normalizeScore_def clamp_def js_min_def js_max_def Let_def)

lemma normalizeScore_PosInfinity: "normalizeScore PosInfinity = Num 0"
  by (simp add: normalizeScore_def js_min_def js_max_def Let_def)

lemma normalizeScore_NegInfinity: "normalizeScore NegInfinity = Num 1"
  by (simp add: normalizeScore_def js_min_def js_max_def Let_def)

lemma normalizeScore_range: "distance \<noteq> NaN \<Longrightarrow> inUnitInterval (normalizeScore distance)"
  by (cases distance)
     (simp_all add: normalizeScore_Num normalizeScore_PosInfinity normalizeScore_NegInfinity
        inUnitInterval_def clamp_def)

lemma score_toSearchResult: "score (toSearchResult p) = normalizeScore (snd p)"
  by (cases p) (simp add: toSearchResult_def Let_def)

lemma search_answered:
  "similaritySearchWithScore svc q (js_or_int (vs_k options) (VECTOR_SEARCH_K cfg))
      (vs_filter options) = Inr results \<Longrightarrow>
   search cfg svc q options w =
     (Inr (map toSearchResult results),
      w\<lparr>ticks := Suc (Suc (ticks w)),
        trace := trace w @ [SearchCalled q,
                   StoreQueried q (js_or_int (vs_k options) (VECTOR_SEARCH_K cfg))]\<rparr>)"
  by (simp add: search_def Let_def Date_now_def emit_def)

text \<open>
  Claim C4, as amended. For every distance that is a number, \<open>normalizeScore\<close> is the clamp
  of \<open>1 - distance\<close> to \<open>[0, 1]\<close>: for a finite distance of any size and sign, and for the
  two infinities, which give \<open>0\<close> and \<open>1\<close>. When the index answers and none of its distances
  is \<open>NaN\<close>, \<open>search\<close> returns one candidate per result, in order, its score the normalised
  distance, and every returned score lies in \<open>[0, 1]\<close>.
\<close>

theorem search_scores_clamped:
  assumes "similaritySearchWithScore svc q (js_or_int (vs_k options) (VECTOR_SEARCH_K cfg))
             (vs_filter options) = Inr results"
    and "\<forall>p \<in> set results. snd p \<noteq> NaN"
  shows "(\<forall>d. normalizeScore (Num d) = Num (clamp (1 - d) 0 1))
         \<and> normalizeScore PosInfinity = Num 0
         \<and> normalizeScore NegInfinity = Num 1
         \<and> (\<exists>candidates w'. search cfg svc q options w = (Inr candidates, w')
               \<and> map score candidates = map (\<lambda>p. normalizeScore (snd p)) results
               \<and> (\<forall>c \<in> set candidates. inUnitInterval (score c)))"
proof -
  have "map score (map toSearchResult results) = map (\<lambda>p. normalizeScore (snd p)) results"
    by (simp add: score_toSearchResult)
  moreover have "\<forall>c \<in> set (map toSearchResult results). inUnitInterval (score c)"
    using assms(2) by (auto simp: score_toSearchResult normalizeScore_range)
  ultimately show ?thesis
    using search_answered [OF assms(1), of w]
      normalizeScore_Num normalizeScore_PosInfinity normalizeScore_NegInfinity
    by blast
qed

theorem search_scores_clamped_witness:
  "\<exists>candidates w'.
      search (sampleConfig True)
        (sampleServices (Inr [(sampleDocument ''Kernels'', Num (- 0.25)),
                              (sampleDocument ''Boosting'', Num 0.3),
                              (sampleDocument ''Bandits'', Num 2.5),
                              (sampleDocument ''Trees'', PosInfinity)]) (Inl NonError))
        ''kernels'' sampleSearchOptions emptyWorld = (Inr candidates, w')
      \<and> map score candidates = [Num 1, Num 0.7, Num 0, Num 0]
      \<and> (\<forall>c \<in> set candidates. inUnitInterval (score c))"
proof -
  let ?found = "[(sampleDocument ''Kernels'', Num (- 0.25)),
                 (sampleDocument ''Boosting'', Num 0.3),
                 (sampleDocument ''Bandits'', Num 2.5),
                 (sampleDocument ''Trees'', PosInfinity)]"
  have h1: "similaritySearchWithScore (sampleServices (Inr ?found) (Inl NonError)) ''kernels''
             (js_or_int (vs_k sampleSearchOptions) (VECTOR_SEARCH_K (sampleConfig True)))
             (vs_filter sampleSearchOptions) = Inr ?found"
    by (simp add: sampleServices_def)
  have h2: "\<forall>p \<in> set ?found. snd p \<noteq> NaN"
    by simp
  have "map (\<lambda>p. normalizeScore (snd p)) ?found = [Num 1, Num 0.7, Num 0, Num 0]"
    by (simp add: normalizeScore_def js_min_def js_max_def Let_def)
  with search_scores_clamped [OF h1 h2, of emptyWorld] show ?thesis
    by auto
qed

text \<open>
  Claim C4 as stated fails for a distance that is \<open>NaN\<close>: \<open>1 - NaN\<close>, \<open>Math.min\<close> and
  \<open>Math.max\<close> all give \<open>NaN\<close>, so the candidate's score is \<open>NaN\<close>, which is not in
  \<open>[0, 1]\<close>.
\<close>

theorem search_score_of_NaN_distance:
  "normalizeScore NaN = NaN
   \<and> \<not> inUnitInterval (normalizeScore NaN)
   \<and> map_sum id (map score)
       (fst (search (sampleConfig True)
               (sampleServices (Inr [(sampleDocument ''Kernels'', NaN)]) (Inl NonError))
               ''kernels'' sampleSearchOptions emptyWorld)) = Inr [NaN]"
  by (simp add: normalizeScore_def js_min_def js_max_def Let_def inUnitInterval_def
        search_def sampleServices_def Date_now_def toSearchResult_def split: prod.splits)

section \<open>Properties of the orchestrator\<close>

lemma js_or_int_idem: "js_or_int (Some (js_or_int a b)) b = js_or_int a b"
  by (simp add: js_or_int_def split: option.splits)

text \<open>The whole run of \<open>query\<close> when the index answers with no result.\<close>

lemma query_early_exit:
  assumes "similaritySearchWithScore svc q
             (js_or_int (opt_candidatesK options) (VECTOR_SEARCH_K cfg)) None = Inr []"
  shows "query cfg svc q options w =
           (Inr \<lparr>qr_answer = noPapersAnswer, qr_sources = [],
                 qr_metadata =
                   \<lparr>retrievalTimeMs = clock svc (ticks w + 4) - clock svc (ticks w + 1),
                    rerankTimeMs = None, generationTimeMs = 0,
                    totalTimeMs = clock svc (ticks w + 5) - clock svc (ticks w),
                    candidateCount = 0, finalCount = 0, modelUsed = CHAT_MODEL cfg\<rparr>\<rparr>,
            w\<lparr>ticks := ticks w + 6,
              trace := trace w @ [SearchCalled q,
                StoreQueried q (js_or_int (opt_candidatesK options) (VECTOR_SEARCH_K cfg))]\<rparr>)"
proof -
  let ?k = "js_or_int (opt_candidatesK options) (VECTOR_SEARCH_K cfg)"
  let ?so = "\<lparr>vs_k = Some ?k, vs_filter = None\<rparr>"
  have "similaritySearchWithScore svc q (js_or_int (vs_k ?so) (VECTOR_SEARCH_K cfg))
          (vs_filter ?so) = Inr []"
    using assms by (simp add: js_or_int_idem)
  note s = search_answered [OF this]
  show ?thesis
    by (simp add: query_def Let_def Date_now_def s js_or_int_idem eval_nat_numeral)
qed

text \<open>
  Claim C5. When the retrieval stage returns no candidate, \<open>query\<close> returns the fixed
  no-results answer with no sources and \<open>candidateCount = 0\<close>, and the only collaborator
  calls of the run are the search and its query of the index: neither \<open>rerank\<close> nor
  \<open>generate\<close> is entered, and neither the scoring service nor the chat model is called.
\<close>

theorem query_no_candidates:
  assumes "similaritySearchWithScore svc q
             (js_or_int (opt_candidatesK options) (VECTOR_SEARCH_K cfg)) None = Inr []"
  shows "\<exists>r w'. query cfg svc q options w = (Inr r, w')
           \<and> qr_answer r = noPapersAnswer
           \<and> qr_sources r = []
           \<and> candidateCount (qr_metadata r) = 0
           \<and> trace w' = trace w @ [SearchCalled q,
                StoreQueried q (js_or_int (opt_candidatesK options) (VECTOR_SEARCH_K cfg))]"
  by (simp add: query_early_exit [OF assms])

theorem query_no_candidates_witness:
  "\<exists>r w'. query (sampleConfig True) (sampleServices (Inr []) (Inl NonError)) ''kernels''
             sampleRagOptions emptyWorld = (Inr r, w')
     \<and> qr_answer r = noPapersAnswer \<and> qr_sources r = []
     \<and> candidateCount (qr_metadata r) = 0
     \<and> trace w' = [SearchCalled ''kernels'', StoreQueried ''kernels'' 20]"
proof -
  have h: "similaritySearchWithScore (sampleServices (Inr []) (Inl NonError)) ''kernels''
             (js_or_int (opt_candidatesK sampleRagOptions) (VECTOR_SEARCH_K (sampleConfig True)))
             None = Inr []"
    by (simp add: sampleServices_def)
  have "js_or_int (opt_candidatesK sampleRagOptions) (VECTOR_SEARCH_K (sampleConfig True)) = 20"
    by (simp add: js_or_int_def sampleRagOptions_def sampleConfig_def)
  with query_no_candidates [OF h, of emptyWorld] show ?thesis
    by (simp add: emptyWorld_def)
qed

section \<open>Properties of the response generator\<close>

text \<open>
  Claim C6. With an empty list of sources, \<open>generate\<close> returns the fixed answer and an
  empty list of references, and the chat model is not called: the run adds its own entry to
  the trace and nothing else.
\<close>

theorem generate_empty_sources:
  "generate svc q [] w =
     (Inr \<lparr>gr_answer = noPapersAnswer, gr_sources = [], gr_modelUsed = modelName svc,
           gr_tokensUsed = None\<rparr>,
      w\<lparr>ticks := Suc (ticks w), trace := trace w @ [GenerateCalled q]\<rparr>)"
  by (simp add: generate_def Date_now_def emit_def Let_def)





text \<open>
  The relevance score shown to the user is \<open>rerankScore || score\<close>. It is the rerank score
  when that is truthy, and also when the two fields agree, as they do in everything the
  reranker and the orchestrator produce: the reranker writes the new score into both fields,
  and both fallbacks copy the candidate's score into \<open>rerankScore\<close>.
\<close>

lemma relevanceScore_is_rerankScore:
  "score source = rerankScore source \<Longrightarrow>
   sr_relevanceScore (toSourceReference source) = rerankScore source"
  by (simp add: toSourceReference_def js_or_num_def)

lemma fallback_scores_agree:
  "r \<in> set (fallbackToOriginalScores candidates topK) \<Longrightarrow> score r = rerankScore r"
  by (auto simp: fallbackToOriginalScores_def)

lemma skipReranking_scores_agree:
  "r \<in> set (skipReranking candidates finalK) \<Longrightarrow> score r = rerankScore r"
  by (auto simp: skipReranking_def)

lemma mapRerankResults_scores_agree:
  "mapRerankResults candidates results = Inr rs \<Longrightarrow> r \<in> set rs \<Longrightarrow> score r = rerankScore r"
proof (induction results arbitrary: rs)
  case Nil
  then show ?case by simp
next
  case (Cons x xs)
  then show ?case
    by (auto simp: mapRerankResult_def split: sum.splits option.splits)
qed

lemma set_js_sort: "set (js_sort cmp xs) = set xs"
  using mset_js_sort [of cmp xs] by (metis set_mset_mset)

lemma rerank_scores_agree:
  "r \<in> set (fst (rerank cfg svc q candidates options w)) \<Longrightarrow> score r = rerankScore r"
  by (auto simp: rerank_def Let_def Date_now_def set_js_sort
           split: if_splits sum.splits prod.splits
           dest: fallback_scores_agree mapRerankResults_scores_agree)

lemma rerank_result_scores_agree:
  "rerank cfg svc q candidates options w = (rs, w') \<Longrightarrow> r \<in> set rs \<Longrightarrow>
   score r = rerankScore r"
  using rerank_scores_agree [of r cfg svc q candidates options w] by simp

lemma stage2_scores_agree:
  "r \<in> set (fst (stage2 cfg svc q candidates finalK withReranking md w)) \<Longrightarrow>
   score r = rerankScore r"
  by (auto simp: stage2_def Let_def Date_now_def split: if_splits prod.splits
           dest: skipReranking_scores_agree rerank_result_scores_agree)

text \<open>
  Claim C8. The ranked candidates passed to the synthesizer are the final results of stage 2
  of \<open>query\<close>. For each of them the user-facing reference has \<open>relevanceScore\<close> equal to the
  candidate's \<open>rerankScore\<close>, a rerank score of zero included; and a successful \<open>generate\<close>
  on them returns references whose relevance scores are, in order, their rerank scores.
\<close>

theorem relevanceScore_equals_rerankScore:
  "(\<forall>r \<in> set (fst (stage2 cfg svc q candidates finalK withReranking md w)).
      sr_relevanceScore (toSourceReference r) = rerankScore r)
   \<and> (\<forall>resp w1 w2.
        generate svc q (fst (stage2 cfg svc q candidates finalK withReranking md w)) w1
          = (Inr resp, w2) \<longrightarrow>
        map sr_relevanceScore (gr_sources resp) =
          map rerankScore (fst (stage2 cfg svc q candidates finalK withReranking md w)))"
proof
  let ?final = "fst (stage2 cfg svc q candidates finalK withReranking md w)"
  show each: "\<forall>r \<in> set ?final. sr_relevanceScore (toSourceReference r) = rerankScore r"
    by (simp add: stage2_scores_agree relevanceScore_is_rerankScore)
  have "gr_sources resp = map toSourceReference ?final"
    if "generate svc q ?final w1 = (Inr resp, w2)" for resp w1 w2
    using that
    by (auto simp: generate_def Let_def Date_now_def split: if_splits sum.splits)
  with each show "\<forall>resp w1 w2. generate svc q ?final w1 = (Inr resp, w2) \<longrightarrow>
        map sr_relevanceScore (gr_sources resp) = map rerankScore ?final"
    by simp
qed

theorem relevanceScore_equals_rerankScore_witness:
  "map rerankScore
     (fst (stage2 (sampleConfig True)
             (sampleServices (Inr []) (Inr [\<lparr>index = 0, relevanceScore = 0\<rparr>]))
             ''kernels'' sampleCandidates 1 True sampleMetadata emptyWorld)) = [Num 0]
   \<and> (\<exists>resp w'.
        generate (sampleServices (Inr []) (Inr [\<lparr>index = 0, relevanceScore = 0\<rparr>])) ''kernels''
          (fst (stage2 (sampleConfig True)
                  (sampleServices (Inr []) (Inr [\<lparr>index = 0, relevanceScore = 0\<rparr>]))
                  ''kernels'' sampleCandidates 1 True sampleMetadata emptyWorld))
          emptyWorld = (Inr resp, w')
        \<and> map sr_relevanceScore (gr_sources resp) = [Num 0])"
proof -
  let ?svc = "sampleServices (Inr []) (Inr [\<lparr>index = 0, relevanceScore = 0\<rparr>])"
  let ?final = "fst (stage2 (sampleConfig True) ?svc ''kernels'' sampleCandidates 1 True
                       sampleMetadata emptyWorld)"
  have final: "?final =
     [\<lparr>paper = samplePaper ''Kernels'', score = Num 0, chunkContent = ''Kernel methods.'',
       rerankScore = Num 0, originalScore = Num 0.9\<rparr>]"
    by (simp add: stage2_def rerank_def sampleConfig_def sampleServices_def sampleCandidates_def
          effectiveTopK_def js_or_int_def js_or_string_def Date_now_def emit_def emptyWorld_def
          mapRerankResult_def js_index_def js_sort_def rerankDocuments_def Let_def)
  then have scores: "map rerankScore ?final = [Num 0]"
    by simp
  have "\<exists>resp w'. generate ?svc ''kernels'' ?final emptyWorld = (Inr resp, w')"
    by (simp add: final generate_def sampleServices_def Date_now_def Let_def)
  then obtain resp w' where run: "generate ?svc ''kernels'' ?final emptyWorld = (Inr resp, w')"
    by blast
  from relevanceScore_equals_rerankScore
         [of "sampleConfig True" ?svc "''kernels''" sampleCandidates 1 True sampleMetadata
             emptyWorld] run
  have "map sr_relevanceScore (gr_sources resp) = map rerankScore ?final"
    by blast
  with scores run show ?thesis
    by auto
qed

section \<open>Properties of the batch route and of comparison mode\<close>

lemma foldl_add_sum_list:
  "foldl (\<lambda>sum r. sum + f r) a rs = a + sum_list (map f rs)"
  for a :: int
  by (induction rs arbitrary: a) auto

lemma length_runQueries:
  "runQueries cfg svc options qs w = (rs, w') \<Longrightarrow> length rs = length qs"
  by (induction qs arbitrary: w rs w') (auto simp: Let_def split: prod.splits)

lemma length_promiseAll: "promiseAll rs = Inr xs \<Longrightarrow> length xs = length rs"
proof (induction rs arbitrary: xs)
  case Nil
  then show ?case by simp
next
  case (Cons r rs)
  then show ?case
    by (cases r) (auto split: sum.splits)
qed

text \<open>
  Claim C9. A batch of more than ten queries is refused with the validation error (status
  400) and the world is left as it was: no query is run. For an accepted batch there is one
  response per query, and the total time reported is the sum of the \<open>totalTimeMs\<close> of the
  responses; the route reads no clock of its own.
\<close>

theorem postQueryBatch_limit_and_total:
  "(10 < length (bb_queries body) \<longrightarrow>
      postQueryBatch cfg svc body w = (Inl (APIError 400 ''Invalid request body''), w))
   \<and> (\<forall>resp w'. postQueryBatch cfg svc body w = (Inr resp, w') \<longrightarrow>
          length (bb_queries body) \<le> 10 \<and>
          length (br_results resp) = length (bb_queries body) \<and>
          br_totalTimeMs resp =
            sum_list (map (\<lambda>r. totalTimeMs (qr_metadata r)) (br_results resp)))"
proof (intro conjI allI impI)
  assume "10 < length (bb_queries body)"
  then show "postQueryBatch cfg svc body w = (Inl (APIError 400 ''Invalid request body''), w)"
    by (simp add: postQueryBatch_def batchSchemaAccepts_def)
next
  fix resp w'
  assume ok: "postQueryBatch cfg svc body w = (Inr resp, w')"
  then show "length (bb_queries body) \<le> 10"
    by (auto simp: postQueryBatch_def batchSchemaAccepts_def split: if_splits)
  let ?options = "\<lparr>opt_k = bb_k body, opt_candidatesK = None,
                    opt_withReranking = bb_withReranking body, opt_temperature = None\<rparr>"
  from ok obtain outcomes w1 results where
    run: "runQueries cfg svc ?options (bb_queries body) w = (outcomes, w1)"
    and all: "promiseAll outcomes = Inr results"
    and resp: "resp = \<lparr>br_queries = length (bb_queries body), br_results = results,
                 br_totalTimeMs = foldl (\<lambda>sum r. sum + totalTimeMs (qr_metadata r)) 0 results\<rparr>"
    by (auto simp: postQueryBatch_def Let_def split: if_splits prod.splits sum.splits)
  from length_promiseAll [OF all] length_runQueries [OF run] resp
  show "length (br_results resp) = length (bb_queries body)"
    by simp
  from resp show "br_totalTimeMs resp =
            sum_list (map (\<lambda>r. totalTimeMs (qr_metadata r)) (br_results resp))"
    by (simp add: foldl_add_sum_list)
qed

theorem postQueryBatch_limit_and_total_witness:
  "postQueryBatch (sampleConfig True) (sampleServices (Inr []) (Inl NonError))
     (sampleBatch (replicate 11 ''kernels'')) emptyWorld =
     (Inl (APIError 400 ''Invalid request body''), emptyWorld)
   \<and> (\<exists>resp w'. postQueryBatch (sampleConfig True) (sampleServices (Inr []) (Inl NonError))
                   (sampleBatch [''kernels'', ''bandits'']) emptyWorld = (Inr resp, w')
         \<and> map (\<lambda>r. totalTimeMs (qr_metadata r)) (br_results resp) = [50, 50]
         \<and> br_totalTimeMs resp = 100)"
proof -
  let ?cfg = "sampleConfig True"
  let ?svc = "sampleServices (Inr []) (Inl NonError)"
  let ?options = "\<lparr>opt_k = None, opt_candidatesK = None, opt_withReranking = None,
                    opt_temperature = None\<rparr>"
  have "10 < length (bb_queries (sampleBatch (replicate 11 ''kernels'')))"
    by (simp add: sampleBatch_def)
  with postQueryBatch_limit_and_total
         [of "sampleBatch (replicate 11 ''kernels'')" ?cfg ?svc emptyWorld]
  have refused: "postQueryBatch ?cfg ?svc (sampleBatch (replicate 11 ''kernels'')) emptyWorld =
     (Inl (APIError 400 ''Invalid request body''), emptyWorld)"
    by blast
  have h: "similaritySearchWithScore ?svc s
             (js_or_int (opt_candidatesK ?options) (VECTOR_SEARCH_K ?cfg)) None = Inr []" for s
    by (simp add: sampleServices_def)
  have ck: "clock ?svc n = 10 * int n" for n
    by (simp add: sampleServices_def)
  have "\<exists>resp w'. postQueryBatch ?cfg ?svc (sampleBatch [''kernels'', ''bandits'']) emptyWorld =
                    (Inr resp, w')
          \<and> map (\<lambda>r. totalTimeMs (qr_metadata r)) (br_results resp) = [50, 50]"
    by (simp add: postQueryBatch_def batchSchemaAccepts_def sampleBatch_def Let_def
          query_early_exit [OF h] emptyWorld_def ck)
  then obtain resp w' where
    run: "postQueryBatch ?cfg ?svc (sampleBatch [''kernels'', ''bandits'']) emptyWorld =
            (Inr resp, w')"
    and each: "map (\<lambda>r. totalTimeMs (qr_metadata r)) (br_results resp) = [50, 50]"
    by (elim exE conjE)
  from postQueryBatch_limit_and_total
         [of "sampleBatch [''kernels'', ''bandits'']" ?cfg ?svc emptyWorld] run
  have "br_totalTimeMs resp =
          sum_list (map (\<lambda>r. totalTimeMs (qr_metadata r)) (br_results resp))"
    by blast
  with each have "br_totalTimeMs resp = 100"
    by simp
  with refused run each show ?thesis
    by auto
qed

text \<open>
  Claim C10. \<open>queryWithComparison\<close> divides each sum of relevance scores by the number of
  sources without a test for zero. When the retrieval returns no candidate, both runs
  return no sources, both averages are \<open>0 / 0\<close>, the improvement of the average score is not
  a number, and \<open>sourcesChanged\<close> is false.
\<close>

theorem queryWithComparison_no_candidates:
  assumes "similaritySearchWithScore svc q (VECTOR_SEARCH_K cfg) None = Inr []"
  shows "\<exists>c w'. queryWithComparison cfg svc q w = (Inr c, w')
           \<and> qr_sources (withRerankingResponse c) = []
           \<and> qr_sources (withoutRerankingResponse c) = []
           \<and> avgScore (withRerankingResponse c) = NaN
           \<and> avgScore (withoutRerankingResponse c) = NaN
           \<and> avgScoreImprovement (improvementMetrics c) = NaN
           \<and> sourcesChanged (improvementMetrics c) = False"
proof -
  let ?on = "\<lparr>opt_k = None, opt_candidatesK = None, opt_withReranking = Some True,
               opt_temperature = None\<rparr>"
  let ?off = "\<lparr>opt_k = None, opt_candidatesK = None, opt_withReranking = Some False,
                opt_temperature = None\<rparr>"
  have on: "similaritySearchWithScore svc q
              (js_or_int (opt_candidatesK ?on) (VECTOR_SEARCH_K cfg)) None = Inr []"
    using assms by (simp add: js_or_int_def)
  have off: "similaritySearchWithScore svc q
              (js_or_int (opt_candidatesK ?off) (VECTOR_SEARCH_K cfg)) None = Inr []"
    using assms by (simp add: js_or_int_def)
  show ?thesis
    by (simp add: queryWithComparison_def query_early_exit [OF on] query_early_exit [OF off]
          compareResponses_def avgScore_def js_div_length_def js_index_def)
qed

theorem queryWithComparison_no_candidates_witness:
  "\<exists>c w'. queryWithComparison (sampleConfig True) (sampleServices (Inr []) (Inl NonError))
             ''kernels'' emptyWorld = (Inr c, w')
     \<and> avgScoreImprovement (improvementMetrics c) = NaN
     \<and> sourcesChanged (improvementMetrics c) = False"
proof -
  have h: "similaritySearchWithScore (sampleServices (Inr []) (Inl NonError)) ''kernels''
             (VECTOR_SEARCH_K (sampleConfig True)) None = Inr []"
    by (simp add: sampleServices_def)
  from queryWithComparison_no_candidates [OF h, of emptyWorld] show ?thesis
    by blast
qed

end
